theory Spec2Isabelle
  imports Main "HOL-Library.Word"
begin

unbundle bit_operations_syntax

section \<open>JavaScript values used by the module\<close>

text \<open>
  A JavaScript string is represented by the bytes of its UTF-8 encoding, a \<open>char list\<close>.
  Concatenation, template literals and \<open>Array.prototype.join\<close> act on that
  representation as list concatenation. Strings with unpaired surrogates have no
  representation; no string of the module contains one.
\<close>

text \<open>The template literal \<^verbatim>\<open>`'${s}'`\<close>: the text \<open>s\<close> between two single quotes.\<close>

definition squote :: "string \<Rightarrow> string" where
  "squote s = CHR 0x27 # s @ [CHR 0x27]"

text \<open>\<^verbatim>\<open>values.join(sep)\<close> on an array of strings.\<close>

fun join :: "string \<Rightarrow> string list \<Rightarrow> string" where
  "join sep [] = []"
| "join sep [x] = x"
| "join sep (x # y # ys) = x @ sep @ join sep (y # ys)"

text \<open>
  An object with string keys is the list of its own properties in insertion order, which
  is the order \<^verbatim>\<open>Object.entries\<close> walks (no key of the module is an array index).
  \<open>obj_set\<close> is the assignment \<^verbatim>\<open>o[k] = v\<close>: an existing key keeps its place, a new
  key goes last. \<open>obj_spread\<close> is the object literal \<^verbatim>\<open>{...a, ...b}\<close>: a fresh
  object that receives the properties of \<open>a\<close>, then those of \<open>b\<close>.
\<close>

type_synonym 'v obj = "(string \<times> 'v) list"

fun obj_set :: "string \<Rightarrow> 'v \<Rightarrow> 'v obj \<Rightarrow> 'v obj" where
  "obj_set k v [] = [(k, v)]"
| "obj_set k v ((k', v') # ps) =
     (if k' = k then (k, v) # ps else (k', v') # obj_set k v ps)"

definition obj_spread :: "'v obj \<Rightarrow> 'v obj \<Rightarrow> 'v obj" where
  "obj_spread a b =
     fold (\<lambda>(k, v). obj_set k v) b (fold (\<lambda>(k, v). obj_set k v) a [])"

text \<open>
  \<^verbatim>\<open>o[k].push(v)\<close> on an object of arrays. The spread copies the object and not its
  arrays, and the old object is dropped at once, so the arrays are values here. The only
  key the module pushes to, \<open>script-src\<close>, is a key of every template.
\<close>

fun array_push :: "string \<Rightarrow> string \<Rightarrow> string list obj \<Rightarrow> string list obj" where
  "array_push k v [] = []"
| "array_push k v ((k', vs) # ps) =
     (if k' = k then (k', vs @ [v]) # ps else (k', vs) # array_push k v ps)"

section \<open>The policy builder: \<open>StrictCsp.getStrictCsp\<close>\<close>

text \<open>
  The options object has three optional boolean fields; an absent field reads as
  \<^verbatim>\<open>undefined\<close>, which is falsy. The parameter itself is optional and has a default
  value, used when the argument is omitted.
\<close>

record cspOptions =
  enableBrowserFallbacks :: "bool option"
  enableTrustedTypes :: "bool option"
  enableUnsafeEval :: "bool option"

definition truthy :: "bool option \<Rightarrow> bool" where
  "truthy b = (case b of None \<Rightarrow> False | Some v \<Rightarrow> v)"

definition defaultCspOptions :: cspOptions where
  "defaultCspOptions =
     \<lparr>enableBrowserFallbacks = Some True,
      enableTrustedTypes = Some False,
      enableUnsafeEval = Some False\<rparr>"

text \<open>\<^verbatim>\<open>cspOptions = {...}\<close> in the parameter list.\<close>

definition paramCspOptions :: "cspOptions option \<Rightarrow> cspOptions" where
  "paramCspOptions cspOptions = (case cspOptions of None \<Rightarrow> defaultCspOptions | Some opts \<Rightarrow> opts)"

text \<open>\<^verbatim>\<open>hashes || []\<close>: an array, even an empty one, is truthy.\<close>

definition orEmpty :: "string list option \<Rightarrow> string list" where
  "orEmpty hashes = (case hashes of None \<Rightarrow> [] | Some hs \<Rightarrow> hs)"

text \<open>The object \<open>strictCspTemplate\<close> as it stands when the function serializes it.\<close>

definition strictCspTemplate ::
  "string list option \<Rightarrow> string list option \<Rightarrow> cspOptions option \<Rightarrow> string list obj" where
  "strictCspTemplate scriptHashes0 styleHashes0 cspOptions0 =
     (let cspOptions = paramCspOptions cspOptions0;
          scriptHashes = orEmpty scriptHashes0;
          styleHashes = orEmpty styleHashes0;
          t0 = [(''script-src'', squote ''strict-dynamic'' # scriptHashes),
                (''style-src'', styleHashes),
                (''object-src'', [squote ''none'']),
                (''base-uri'', [squote ''self''])];
          t1 = (if truthy (enableBrowserFallbacks cspOptions)
                then (let t = array_push ''script-src'' ''https:'' t0
                      in if length scriptHashes > 0
                         then array_push ''script-src'' (squote ''unsafe-inline'') t
                         else t)
                else t0);
          t2 = (if truthy (enableTrustedTypes cspOptions)
                then obj_spread t1 [(''require-trusted-types-for'', [squote ''script''])]
                else t1);
          t3 = (if truthy (enableUnsafeEval cspOptions)
                then array_push ''script-src'' (squote ''unsafe-eval'') t2
                else t2)
      in t3)"

text \<open>
  \<^verbatim>\<open>Object.entries(t).map(([directive, values]) => `${directive} ${values.join(' ')};`).join('')\<close>
\<close>

definition serializeTemplate :: "string list obj \<Rightarrow> string" where
  "serializeTemplate t =
     join [] (map (\<lambda>(directive, values). directive @ '' '' @ join '' '' values @ '';'') t)"

definition getStrictCsp ::
  "string list option \<Rightarrow> string list option \<Rightarrow> cspOptions option \<Rightarrow> string" where
  "getStrictCsp scriptHashes styleHashes cspOptions =
     serializeTemplate (strictCspTemplate scriptHashes styleHashes cspOptions)"

text \<open>The tokens of the \<open>script-src\<close> directive of the finished template.\<close>

definition scriptSrc ::
  "string list option \<Rightarrow> string list option \<Rightarrow> cspOptions option \<Rightarrow> string list option" where
  "scriptSrc scriptHashes styleHashes cspOptions =
     map_of (strictCspTemplate scriptHashes styleHashes cspOptions) ''script-src''"

section \<open>The loader script: \<open>StrictCsp.createLoaderScript\<close>\<close>

text \<open>
  \<^verbatim>\<open>srcList.map((s) => `'${s}'`).join()\<close> joins with a comma; the result is spliced
  into the template literal, whose line breaks are part of the string.
\<close>

definition createLoaderScript :: "string list \<Rightarrow> string option" where
  "createLoaderScript srcList =
     (if length srcList = 0 then None
      else (let srcListFormatted = join '','' (map (\<lambda>s. squote s) srcList)
            in Some (''\<newline>    var scripts = ['' @ srcListFormatted @ ''];\<newline>''
                     @ ''    scripts.forEach(function(scriptUrl) {\<newline>''
                     @ ''      var s = document.createElement('script');\<newline>''
                     @ ''      s.src = scriptUrl;\<newline>''
                     @ ''      s.async = false; // preserve execution order.\<newline>''
                     @ ''      document.body.appendChild(s);\<newline>''
                     @ ''    });\<newline>    '')))"

section \<open>The hasher: \<open>StrictCsp.hashInlineObject\<close>\<close>

text \<open>
  Modelled from the spec: the SHA-256 digest and the base64 encoding that the module
  takes from Node's \<open>crypto\<close>, which is not code of the repository. The digest follows
  FIPS 180-4 on 32-bit words, the encoding RFC 4648 with padding.
\<close>

type_synonym byte = "8 word"

definition rotr :: "nat \<Rightarrow> 32 word \<Rightarrow> 32 word" where
  "rotr n x = drop_bit n x OR push_bit (32 - n) x"

definition Ch :: "32 word \<Rightarrow> 32 word \<Rightarrow> 32 word \<Rightarrow> 32 word" where
  "Ch x y z = (x AND y) XOR (NOT x AND z)"

definition Maj :: "32 word \<Rightarrow> 32 word \<Rightarrow> 32 word \<Rightarrow> 32 word" where
  "Maj x y z = (x AND y) XOR (x AND z) XOR (y AND z)"

definition bsig0 :: "32 word \<Rightarrow> 32 word" where
  "bsig0 x = rotr 2 x XOR rotr 13 x XOR rotr 22 x"

definition bsig1 :: "32 word \<Rightarrow> 32 word" where
  "bsig1 x = rotr 6 x XOR rotr 11 x XOR rotr 25 x"

definition ssig0 :: "32 word \<Rightarrow> 32 word" where
  "ssig0 x = rotr 7 x XOR rotr 18 x XOR drop_bit 3 x"

definition ssig1 :: "32 word \<Rightarrow> 32 word" where
  "ssig1 x = rotr 17 x XOR rotr 19 x XOR drop_bit 10 x"

definition sha256_K :: "32 word list" where
  "sha256_K =
     [0x428A2F98, 0x71374491, 0xB5C0FBCF, 0xE9B5DBA5,
      0x3956C25B, 0x59F111F1, 0x923F82A4, 0xAB1C5ED5,
      0xD807AA98, 0x12835B01, 0x243185BE, 0x550C7DC3,
      0x72BE5D74, 0x80DEB1FE, 0x9BDC06A7, 0xC19BF174,
      0xE49B69C1, 0xEFBE4786, 0x0FC19DC6, 0x240CA1CC,
      0x2DE92C6F, 0x4A7484AA, 0x5CB0A9DC, 0x76F988DA,
      0x983E5152, 0xA831C66D, 0xB00327C8, 0xBF597FC7,
      0xC6E00BF3, 0xD5A79147, 0x06CA6351, 0x14292967,
      0x27B70A85, 0x2E1B2138, 0x4D2C6DFC, 0x53380D13,
      0x650A7354, 0x766A0ABB, 0x81C2C92E, 0x92722C85,
      0xA2BFE8A1, 0xA81A664B, 0xC24B8B70, 0xC76C51A3,
      0xD192E819, 0xD6990624, 0xF40E3585, 0x106AA070,
      0x19A4C116, 0x1E376C08, 0x2748774C, 0x34B0BCB5,
      0x391C0CB3, 0x4ED8AA4A, 0x5B9CCA4F, 0x682E6FF3,
      0x748F82EE, 0x78A5636F, 0x84C87814, 0x8CC70208,
      0x90BEFFFA, 0xA4506CEB, 0xBEF9A3F7, 0xC67178F2]"

definition be32 :: "byte \<Rightarrow> byte \<Rightarrow> byte \<Rightarrow> byte \<Rightarrow> 32 word" where
  "be32 a b c d =
     push_bit 24 (ucast a) OR push_bit 16 (ucast b) OR push_bit 8 (ucast c) OR ucast d"

fun be_words :: "byte list \<Rightarrow> 32 word list" where
  "be_words (a # b # c # d # bs) = be32 a b c d # be_words bs"
| "be_words bs = []"

definition word_bytes :: "32 word \<Rightarrow> byte list" where
  "word_bytes w =
     [ucast (drop_bit 24 w), ucast (drop_bit 16 w), ucast (drop_bit 8 w), ucast w]"

definition len_bytes :: "nat \<Rightarrow> byte list" where
  "len_bytes n =
     map (\<lambda>i. ucast (drop_bit (8 * i) (word_of_nat n :: 64 word))) [7, 6, 5, 4, 3, 2, 1, 0]"

text \<open>The message, the byte \<open>0x80\<close>, zeros up to 56 modulo 64, and the bit length.\<close>

definition sha256_pad :: "byte list \<Rightarrow> byte list" where
  "sha256_pad m =
     m @ [0x80] @ replicate ((119 - length m mod 64) mod 64) 0 @ len_bytes (8 * length m)"

text \<open>
  The message schedule, kept as the window of the last sixteen words: each step emits
  the oldest word and appends the next one of the schedule.
\<close>

fun schedule :: "nat \<Rightarrow> 32 word list \<Rightarrow> 32 word list" where
  "schedule 0 w = []"
| "schedule (Suc n)
     [w0, w1, w2, w3, w4, w5, w6, w7, w8, w9, w10, w11, w12, w13, w14, w15] =
     w0 # schedule n
       [w1, w2, w3, w4, w5, w6, w7, w8, w9, w10, w11, w12, w13, w14, w15,
        ssig1 w14 + w9 + ssig0 w1 + w0]"
| "schedule (Suc n) w = []"

type_synonym sha_state =
  "32 word \<times> 32 word \<times> 32 word \<times> 32 word \<times> 32 word \<times> 32 word \<times> 32 word \<times> 32 word"

fun sha_round :: "sha_state \<Rightarrow> 32 word \<times> 32 word \<Rightarrow> sha_state" where
  "sha_round (a, b, c, d, e, f, g, h) (k, w) =
     (let t1 = h + bsig1 e + Ch e f g + k + w;
          t2 = bsig0 a + Maj a b c
      in (t1 + t2, a, b, c, d + t1, e, f, g))"

fun compress :: "sha_state \<Rightarrow> 32 word list \<Rightarrow> sha_state" where
  "compress (a, b, c, d, e, f, g, h) m =
     (case foldl sha_round (a, b, c, d, e, f, g, h) (zip sha256_K (schedule 64 m)) of
        (a', b', c', d', e', f', g', h') \<Rightarrow>
          (a + a', b + b', c + c', d + d', e + e', f + f', g + g', h + h'))"

function sha_blocks :: "sha_state \<Rightarrow> byte list \<Rightarrow> sha_state" where
  "sha_blocks s bs =
     (if length bs < 64 then s
      else sha_blocks (compress s (be_words (take 64 bs))) (drop 64 bs))"
  by pat_completeness auto
termination
  by (relation "measure (\<lambda>(s, bs). length bs)") auto

declare sha_blocks.simps [simp del]

definition sha256 :: "byte list \<Rightarrow> byte list" where
  "sha256 m =
     (case sha_blocks (0x6A09E667, 0xBB67AE85, 0x3C6EF372, 0xA54FF53A,
                       0x510E527F, 0x9B05688C, 0x1F83D9AB, 0x5BE0CD19) (sha256_pad m) of
        (a, b, c, d, e, f, g, h) \<Rightarrow> concat (map word_bytes [a, b, c, d, e, f, g, h]))"

definition b64_char :: "byte \<Rightarrow> char" where
  "b64_char i =
     ''ABCDEFGHIJKLMNOPQRSTUVWXYZabcdefghijklmnopqrstuvwxyz0123456789+/'' ! unat i"

fun base64 :: "byte list \<Rightarrow> string" where
  "base64 [] = []"
| "base64 [a] =
     [b64_char (drop_bit 2 a), b64_char (push_bit 4 (a AND 3)), CHR ''='', CHR ''='']"
| "base64 [a, b] =
     [b64_char (drop_bit 2 a), b64_char (push_bit 4 (a AND 3) OR drop_bit 4 b),
      b64_char (push_bit 2 (b AND 15)), CHR ''='']"
| "base64 (a # b # c # bs) =
     [b64_char (drop_bit 2 a), b64_char (push_bit 4 (a AND 3) OR drop_bit 4 b),
      b64_char (push_bit 2 (b AND 15) OR drop_bit 6 c), b64_char (c AND 63)] @ base64 bs"

text \<open>
  \<^verbatim>\<open>crypto.createHash('sha256').update(scriptText, 'utf-8').digest('base64')\<close>. The
  string is its UTF-8 bytes already, so the update reads them as they are.
\<close>

definition HASH_FUNCTION :: string where
  "HASH_FUNCTION = ''sha256''"

definition hashInlineObject :: "string \<Rightarrow> string" where
  "hashInlineObject scriptText =
     (let hash = base64 (sha256 (map of_char scriptText))
      in squote (HASH_FUNCTION @ ''-'' @ hash))"

section \<open>The document and the cheerio operations the module uses\<close>

text \<open>
  Modelled from the spec: the document tree and the operations of the parsing library
  (cheerio over htmlparser2), which is not code of the repository. A document is the list
  of the children of the library's root node. An element has a tag name, its attributes
  (a JavaScript object, so an \<open>obj\<close>) and its children; \<open>Other\<close> stands for comments,
  doctypes and processing instructions.
\<close>

datatype node =
    Element string "string obj" "node list"
  | Text string
  | Other string

type_synonym document = "node list"

fun hasName :: "string \<Rightarrow> node \<Rightarrow> bool" where
  "hasName t (Element t' a cs) = (t' = t)"
| "hasName t n = False"

text \<open>\<^verbatim>\<open>$(el).attr(name)\<close>: the value of the attribute, \<open>None\<close> for \<^verbatim>\<open>undefined\<close>.\<close>

fun attr :: "node \<Rightarrow> string \<Rightarrow> string option" where
  "attr (Element t a cs) k = map_of a k"
| "attr n k = None"

fun children :: "node \<Rightarrow> node list" where
  "children (Element t a cs) = cs"
| "children n = []"

text \<open>The selectors of the module, as predicates on a node.\<close>

definition SOURCED_SCRIPT_SELECTOR :: "node \<Rightarrow> bool" where
  "SOURCED_SCRIPT_SELECTOR n = (hasName ''script'' n \<and> attr n ''src'' \<noteq> None)"

definition INLINE_SCRIPT_SELECTOR :: "node \<Rightarrow> bool" where
  "INLINE_SCRIPT_SELECTOR n = (hasName ''script'' n \<and> attr n ''src'' = None)"

definition INLINE_STYLE_SELECTOR :: "node \<Rightarrow> bool" where
  "INLINE_STYLE_SELECTOR n = (hasName ''style'' n \<and> attr n ''href'' = None)"

text \<open>\<^verbatim>\<open>meta[http-equiv="Content-Security-Policy"]\<close>, the value compared as it is written.\<close>

definition META_CSP_SELECTOR :: "node \<Rightarrow> bool" where
  "META_CSP_SELECTOR n =
     (hasName ''meta'' n \<and> attr n ''http-equiv'' = Some ''Content-Security-Policy'')"

text \<open>
  \<^verbatim>\<open>$(selector)\<close>: every node of the document that matches, in document order (a node
  before its descendants, siblings from left to right).
\<close>

fun descendants :: "node \<Rightarrow> node list" where
  "descendants (Element t a cs) = Element t a cs # concat (map descendants cs)"
| "descendants n = [n]"

definition select :: "(node \<Rightarrow> bool) \<Rightarrow> document \<Rightarrow> node list" where
  "select P doc = filter P (concat (map descendants doc))"

text \<open>
  \<^verbatim>\<open>.remove()\<close> called on each element of a selection: every matched node leaves the
  children of its parent. What stays in the document is each unmatched node under unmatched
  ancestors.
\<close>

fun remove :: "(node \<Rightarrow> bool) \<Rightarrow> node \<Rightarrow> node" where
  "remove P (Element t a cs) = Element t a (map (remove P) (filter (\<lambda>c. \<not> P c) cs))"
| "remove P n = n"

definition removeAll :: "(node \<Rightarrow> bool) \<Rightarrow> document \<Rightarrow> document" where
  "removeAll P doc = map (remove P) (filter (\<lambda>c. \<not> P c) doc)"

text \<open>
  \<^verbatim>\<open>selection.attr(name, value)\<close>: the assignment \<^verbatim>\<open>el.attribs[name] = value\<close> on every
  element of the selection.
\<close>

fun attrSet :: "(node \<Rightarrow> bool) \<Rightarrow> string \<Rightarrow> string \<Rightarrow> node \<Rightarrow> node" where
  "attrSet P k v (Element t a cs) =
     Element t (if P (Element t a cs) then obj_set k v a else a) (map (attrSet P k v) cs)"
| "attrSet P k v n = n"

text \<open>\<^verbatim>\<open>el.text(str)\<close>: the children of the element become one text node.\<close>

fun textSet :: "string \<Rightarrow> node \<Rightarrow> node" where
  "textSet str (Element t a cs) = Element t a [Text str]"
| "textSet str n = n"

text \<open>
  \<^verbatim>\<open>el.prependTo(targets)\<close> and \<^verbatim>\<open>el.appendTo(targets)\<close>: the element becomes the
  first (the last) child of every target. The library inserts the element itself into the
  last target of the selection and a clone of it into each target before; with no target
  the element stays outside the document. \<open>later\<close> says that a target follows in document
  order after the nodes at hand, \<open>orig\<close> is the element and \<open>clone\<close> its copy.
\<close>

fun prependTo :: "(node \<Rightarrow> bool) \<Rightarrow> node \<Rightarrow> node \<Rightarrow> bool \<Rightarrow> node \<Rightarrow> node"
  and prependToAll :: "(node \<Rightarrow> bool) \<Rightarrow> node \<Rightarrow> node \<Rightarrow> bool \<Rightarrow> node list \<Rightarrow> node list" where
  "prependTo P orig clone later (Element t a cs) =
     (if P (Element t a cs)
      then Element t a ((if later \<or> select P cs \<noteq> [] then clone else orig)
                         # prependToAll P orig clone later cs)
      else Element t a (prependToAll P orig clone later cs))"
| "prependTo P orig clone later (Text s) = Text s"
| "prependTo P orig clone later (Other s) = Other s"
| "prependToAll P orig clone later [] = []"
| "prependToAll P orig clone later (c # cs) =
     prependTo P orig clone (later \<or> select P cs \<noteq> []) c # prependToAll P orig clone later cs"

fun appendTo :: "(node \<Rightarrow> bool) \<Rightarrow> node \<Rightarrow> node \<Rightarrow> bool \<Rightarrow> node \<Rightarrow> node"
  and appendToAll :: "(node \<Rightarrow> bool) \<Rightarrow> node \<Rightarrow> node \<Rightarrow> bool \<Rightarrow> node list \<Rightarrow> node list" where
  "appendTo P orig clone later (Element t a cs) =
     (if P (Element t a cs)
      then Element t a (appendToAll P orig clone later cs
                         @ [if later \<or> select P cs \<noteq> [] then clone else orig])
      else Element t a (appendToAll P orig clone later cs))"
| "appendTo P orig clone later (Text s) = Text s"
| "appendTo P orig clone later (Other s) = Other s"
| "appendToAll P orig clone later [] = []"
| "appendToAll P orig clone later (c # cs) =
     appendTo P orig clone (later \<or> select P cs \<noteq> []) c # appendToAll P orig clone later cs"

text \<open>
  \<^verbatim>\<open>$(el).html()\<close>: the serialized children of an element. The instance is loaded
  with \<^verbatim>\<open>decodeEntities: false\<close>, so a text node is written as its data; the writer of
  the other nodes is the parameter \<open>render\<close>.
\<close>

fun renderNode :: "(node \<Rightarrow> string) \<Rightarrow> node \<Rightarrow> string" where
  "renderNode render (Text s) = s"
| "renderNode render n = render n"

fun html :: "(node \<Rightarrow> string) \<Rightarrow> node \<Rightarrow> string option" where
  "html render (Element t a cs) = Some (concat (map (renderNode render) cs))"
| "html render n = None"

text \<open>\<^verbatim>\<open>s || ''\<close> on a string that may be \<^verbatim>\<open>null\<close>.\<close>

definition orEmptyString :: "string option \<Rightarrow> string" where
  "orEmptyString s = (case s of None \<Rightarrow> [] | Some t \<Rightarrow> t)"

section \<open>The DOM rewriter: the methods of \<open>StrictCsp\<close>\<close>

text \<open>
  The instance holds one document, \<^verbatim>\<open>this.$\<close>; a method that changes it returns the new
  document, a method that reads it returns its result.

  \<open>addMetaTag\<close>: the selection \<open>metaTag\<close> is either the matched elements of the
  document or, when there is none, the one element parsed from
  \<^verbatim>\<open><meta http-equiv="Content-Security-Policy">\<close>, prepended to the \<open>head\<close> elements.
  The last statement sets \<open>content\<close> on the elements of \<open>metaTag\<close>: on the new element,
  not on the clones that \<open>prependTo\<close> left in the heads before the last.
\<close>

definition newMetaTag :: node where
  "newMetaTag = Element ''meta'' [(''http-equiv'', ''Content-Security-Policy'')] []"

definition addMetaTag :: "string \<Rightarrow> document \<Rightarrow> document" where
  "addMetaTag csp doc =
     (let metaTag = select META_CSP_SELECTOR doc
      in if length metaTag = 0
         then prependToAll (hasName ''head'')
                (attrSet META_CSP_SELECTOR ''content'' csp newMetaTag) newMetaTag False doc
         else map (attrSet META_CSP_SELECTOR ''content'' csp) doc)"

text \<open>
  \<open>refactorSourcedScriptsForHashBasedCsp\<close>: the callback of \<^verbatim>\<open>.map\<close> reads the
  \<open>src\<close> of each matched script and removes the script; the library's \<open>map\<close> leaves out
  a result that is \<^verbatim>\<open>undefined\<close>, and the \<open>filter\<close> after it keeps every entry. The
  new script element comes from \<^verbatim>\<open>cheerio.load('<script>')\<close>.
\<close>

definition refactorSourcedScriptsForHashBasedCsp :: "document \<Rightarrow> document" where
  "refactorSourcedScriptsForHashBasedCsp doc =
     (let srcList = List.map_filter (\<lambda>script. attr script ''src'')
                      (select SOURCED_SCRIPT_SELECTOR doc);
          doc1 = removeAll SOURCED_SCRIPT_SELECTOR doc
      in case createLoaderScript srcList of
           None \<Rightarrow> doc1
         | Some loaderScript \<Rightarrow>
             if loaderScript = [] then doc1
             else (let newScript = textSet loaderScript (Element ''script'' [] [])
                   in appendToAll (hasName ''body'') newScript newScript False doc1))"

text \<open>
  The two hash collectors call no operation that changes the document; they return the
  hashes, and the instance keeps the document it had.
\<close>

definition hashAllInlineScripts ::
  "(node \<Rightarrow> string) \<Rightarrow> document \<Rightarrow> string list \<times> document" where
  "hashAllInlineScripts render doc =
     (map (\<lambda>elem. hashInlineObject (orEmptyString (html render elem)))
        (select INLINE_SCRIPT_SELECTOR doc),
      doc)"

definition hashAllInlineStyles ::
  "(node \<Rightarrow> string) \<Rightarrow> document \<Rightarrow> string list \<times> document" where
  "hashAllInlineStyles render doc =
     (map (\<lambda>elem. hashInlineObject (orEmptyString (html render elem)))
        (select INLINE_STYLE_SELECTOR doc),
      doc)"

section \<open>The policy as the specification words it\<close>

text \<open>
  The specification builds the directive set in steps: \<open>script-src\<close> starts with
  \<open>'strict-dynamic'\<close> and the script hashes, receives \<open>https:\<close> and, with a hash
  present, \<open>'unsafe-inline'\<close> when the fallbacks are on, and \<open>'unsafe-eval'\<close> last when
  that option is on; \<open>style-src\<close>, \<open>object-src\<close> and \<open>base-uri\<close> follow, then
  \<open>require-trusted-types-for\<close> when Trusted Types are on. Each directive is written as
  its name, a space, the tokens joined by spaces, and a semicolon.
\<close>

definition specSegment :: "string \<Rightarrow> string list \<Rightarrow> string" where
  "specSegment name tokens = name @ '' '' @ join '' '' tokens @ '';''"

definition specScriptSrc :: "string list \<Rightarrow> bool \<Rightarrow> bool \<Rightarrow> string list" where
  "specScriptSrc scriptHashes fallbacks unsafeEval =
     [squote ''strict-dynamic''] @ scriptHashes
     @ (if fallbacks
        then [''https:''] @ (if scriptHashes \<noteq> [] then [squote ''unsafe-inline''] else [])
        else [])
     @ (if unsafeEval then [squote ''unsafe-eval''] else [])"

definition specDirectives ::
  "string list \<Rightarrow> string list \<Rightarrow> bool \<Rightarrow> bool \<Rightarrow> bool \<Rightarrow> string list obj" where
  "specDirectives scriptHashes styleHashes fallbacks trustedTypes unsafeEval =
     [(''script-src'', specScriptSrc scriptHashes fallbacks unsafeEval),
      (''style-src'', styleHashes),
      (''object-src'', [squote ''none'']),
      (''base-uri'', [squote ''self''])]
     @ (if trustedTypes then [(''require-trusted-types-for'', [squote ''script''])] else [])"

definition specBuildPolicy ::
  "string list \<Rightarrow> string list \<Rightarrow> bool \<Rightarrow> bool \<Rightarrow> bool \<Rightarrow> string" where
  "specBuildPolicy scriptHashes styleHashes fallbacks trustedTypes unsafeEval =
     concat (map (\<lambda>(name, tokens). specSegment name tokens)
       (specDirectives scriptHashes styleHashes fallbacks trustedTypes unsafeEval))"

section \<open>Notions used to state the properties\<close>

text \<open>
  The two fixed parts of the loader text, before and after the list of sources.
\<close>

definition loaderHead :: string where
  "loaderHead = ''\<newline>    var scripts = [''"

definition loaderTail :: string where
  "loaderTail =
     ''];\<newline>    scripts.forEach(function(scriptUrl) {\<newline>''
     @ ''      var s = document.createElement('script');\<newline>''
     @ ''      s.src = scriptUrl;\<newline>''
     @ ''      s.async = false; // preserve execution order.\<newline>''
     @ ''      document.body.appendChild(s);\<newline>''
     @ ''    });\<newline>    ''"

text \<open>The loader text for the sources \<open>a.js\<close> and \<open>b.js\<close>, written out.\<close>

definition loaderAB :: string where
  "loaderAB =
     ''\<newline>    var scripts = ['a.js','b.js'];\<newline>''
     @ ''    scripts.forEach(function(scriptUrl) {\<newline>''
     @ ''      var s = document.createElement('script');\<newline>''
     @ ''      s.src = scriptUrl;\<newline>''
     @ ''      s.async = false; // preserve execution order.\<newline>''
     @ ''      document.body.appendChild(s);\<newline>''
     @ ''    });\<newline>    ''"

text \<open>
  The quoted structure of a text, after the lexical grammar of single-quoted JavaScript
  string literals: a quote opens a literal, the next unescaped quote closes it, and a
  backslash inside a literal escapes the character after it. \<open>jsLiterals\<close> gives the
  bodies of the literals of a text and \<open>jsOutside\<close> the characters that lie outside
  every literal.
\<close>

fun jsScan :: "bool \<Rightarrow> string \<Rightarrow> string \<Rightarrow> string list \<times> string" where
  "jsScan False cur [] = ([], [])"
| "jsScan True cur [] = ([cur], [])"
| "jsScan False cur (c # cs) =
     (if c = CHR 0x27 then jsScan True [] cs
      else (case jsScan False cur cs of (lits, out) \<Rightarrow> (lits, c # out)))"
| "jsScan True cur (c # cs) =
     (if c = CHR 0x27 then (case jsScan False [] cs of (lits, out) \<Rightarrow> (cur # lits, out))
      else if c = CHR 0x5C
        then (case cs of [] \<Rightarrow> ([cur @ [c]], []) | d # ds \<Rightarrow> jsScan True (cur @ [c, d]) ds)
      else jsScan True (cur @ [c]) cs)"

definition jsLiterals :: "string \<Rightarrow> string list" where
  "jsLiterals text = fst (jsScan False [] text)"

definition jsOutside :: "string \<Rightarrow> string" where
  "jsOutside text = snd (jsScan False [] text)"

text \<open>A source that holds neither a single quote nor a backslash.\<close>

definition safeUrl :: "string \<Rightarrow> bool" where
  "safeUrl u = (CHR 0x27 \<notin> set u \<and> CHR 0x5C \<notin> set u)"

text \<open>The raw text of an element: the data of its text children, in order.\<close>

fun isText :: "node \<Rightarrow> bool" where
  "isText (Text s) = True"
| "isText n = False"

fun textData :: "node \<Rightarrow> string" where
  "textData (Text s) = s"
| "textData n = []"

definition rawText :: "node \<Rightarrow> string" where
  "rawText n = concat (map textData (children n))"

text \<open>
  What \<open>prependTo\<close> puts into \<open>k\<close> targets, in document order: clones, and the element
  itself in the last target unless a target follows later.
\<close>

definition inserted :: "node \<Rightarrow> node \<Rightarrow> bool \<Rightarrow> nat \<Rightarrow> node list" where
  "inserted orig clone later k =
     (if later then replicate k clone
      else if k = 0 then [] else replicate (k - 1) clone @ [orig])"

text \<open>
  Documents used as examples. htmlparser2 builds the tree of the markup as it is written:
  it adds no \<open>html\<close>, \<open>head\<close> or \<open>body\<close> element that the text does not have. So
  \<open>docTwoSourcedScripts\<close> is the document of
  \<^verbatim>\<open><script src="a.js"></script><script src="b.js"></script>\<close>, \<open>docInBody\<close> the one of
  \<^verbatim>\<open><html><head></head><body><script src="a.js"></script><script src="b.js"></script></body></html>\<close>,
  \<open>docHeadBody\<close> the one of
  \<^verbatim>\<open><html><head><title>t</title></head><body></body></html>\<close>, \<open>docTwoMetas\<close> a
  document whose head holds two policy meta elements, \<open>docNoHead\<close> the one of
  \<^verbatim>\<open><html><body><p>hi</p></body></html>\<close>, and \<open>docTwoHeads\<close> the one of
  \<^verbatim>\<open><html><head></head><head></head><body></body></html>\<close>.
\<close>

definition docTwoSourcedScripts :: document where
  "docTwoSourcedScripts =
     [Element ''script'' [(''src'', ''a.js'')] [], Element ''script'' [(''src'', ''b.js'')] []]"

definition docInBody :: document where
  "docInBody =
     [Element ''html'' []
        [Element ''head'' [] [],
         Element ''body'' []
           [Element ''script'' [(''src'', ''a.js'')] [],
            Element ''script'' [(''src'', ''b.js'')] []]]]"

definition docHeadBody :: document where
  "docHeadBody =
     [Element ''html'' []
        [Element ''head'' [] [Element ''title'' [] [Text ''t'']], Element ''body'' [] []]]"

definition docTwoMetas :: document where
  "docTwoMetas =
     [Element ''html'' []
        [Element ''head'' []
           [Element ''meta'' [(''http-equiv'', ''Content-Security-Policy''), (''content'', ''x'')] [],
            Element ''meta'' [(''http-equiv'', ''Content-Security-Policy''), (''content'', ''y'')] []],
         Element ''body'' [] []]]"

definition docNoHead :: document where
  "docNoHead = [Element ''html'' [] [Element ''body'' [] [Element ''p'' [] [Text ''hi'']]]]"

definition docTwoHeads :: document where
  "docTwoHeads =
     [Element ''html'' [] [Element ''head'' [] [], Element ''head'' [] [], Element ''body'' [] []]]"

definition docInlineScripts :: document where
  "docInlineScripts =
     [Element ''body'' []
        [Element ''script'' [] [Text ''a()''],
         Element ''script'' [(''src'', ''x.js'')] [],
         Element ''script'' [] [Text ''b()'']]]"

section \<open>Properties of the policy builder\<close>

lemma join_no_sep: "sep = [] \<Longrightarrow> join sep xs = concat xs"
  by (induction sep xs rule: join.induct) simp_all

lemma join_empty_sep: "join [] xs = concat xs"
  by (simp add: join_no_sep)

lemma strictCspTemplate_eq:
  "strictCspTemplate scriptHashes styleHashes cspOptions =
     specDirectives (orEmpty scriptHashes) (orEmpty styleHashes)
       (truthy (enableBrowserFallbacks (paramCspOptions cspOptions)))
       (truthy (enableTrustedTypes (paramCspOptions cspOptions)))
       (truthy (enableUnsafeEval (paramCspOptions cspOptions)))"
  by (simp add: strictCspTemplate_def specDirectives_def specScriptSrc_def Let_def obj_spread_def)

lemma scriptSrc_eq:
  "scriptSrc scriptHashes styleHashes cspOptions =
     Some (specScriptSrc (orEmpty scriptHashes)
       (truthy (enableBrowserFallbacks (paramCspOptions cspOptions)))
       (truthy (enableUnsafeEval (paramCspOptions cspOptions))))"
  by (simp add: scriptSrc_def strictCspTemplate_eq specDirectives_def)

text \<open>
  C1. For every list of script hashes, list of style hashes and options, \<open>getStrictCsp\<close>
  returns the segments \<open>name token ... token;\<close> of the directives \<open>script-src\<close>,
  \<open>style-src\<close>, \<open>object-src\<close>, \<open>base-uri\<close> and, when enabled,
  \<open>require-trusted-types-for\<close>, in this order, the tokens joined by one space and the
  segments by nothing. With no hashes and the default options the result is the string of
  the specification, with the space before the semicolon of the empty \<open>style-src\<close>.
\<close>

theorem getStrictCsp_serialization:
  "getStrictCsp scriptHashes styleHashes cspOptions =
     specBuildPolicy (orEmpty scriptHashes) (orEmpty styleHashes)
       (truthy (enableBrowserFallbacks (paramCspOptions cspOptions)))
       (truthy (enableTrustedTypes (paramCspOptions cspOptions)))
       (truthy (enableUnsafeEval (paramCspOptions cspOptions)))
   \<and> getStrictCsp (Some []) (Some []) (Some defaultCspOptions) =
       ''script-src 'strict-dynamic' https:;style-src ;object-src 'none';base-uri 'self';''
   \<and> getStrictCsp None None None =
       ''script-src 'strict-dynamic' https:;style-src ;object-src 'none';base-uri 'self';''"
  by (simp add: getStrictCsp_def serializeTemplate_def strictCspTemplate_eq join_empty_sep
      specBuildPolicy_def specSegment_def specDirectives_def specScriptSrc_def
      squote_def paramCspOptions_def defaultCspOptions_def truthy_def orEmpty_def)

theorem getStrictCsp_serialization_witness:
  "getStrictCsp (Some [''h1'', ''h2'']) (Some [''s1'', ''s2''])
     (Some \<lparr>enableBrowserFallbacks = Some True, enableTrustedTypes = Some True,
            enableUnsafeEval = Some True\<rparr>) =
   ''script-src 'strict-dynamic' h1 h2 https: 'unsafe-inline' 'unsafe-eval';''
   @ ''style-src s1 s2;object-src 'none';base-uri 'self';''
   @ ''require-trusted-types-for 'script';''"
  using getStrictCsp_serialization [of "Some [''h1'', ''h2'']" "Some [''s1'', ''s2'']"
     "Some \<lparr>enableBrowserFallbacks = Some True, enableTrustedTypes = Some True,
            enableUnsafeEval = Some True\<rparr>"]
  by (simp add: specBuildPolicy_def specSegment_def specDirectives_def specScriptSrc_def
      squote_def paramCspOptions_def truthy_def orEmpty_def)

text \<open>
  C2. With \<open>enableBrowserFallbacks\<close> on, \<open>script-src\<close> is \<open>'strict-dynamic'\<close>, the given
  script hashes, then \<open>https:\<close>, then \<open>'unsafe-inline'\<close> exactly when a script hash was
  given, then what \<open>enableUnsafeEval\<close> adds. With the option off, \<open>script-src\<close> is
  \<open>'strict-dynamic'\<close>, the hashes and what \<open>enableUnsafeEval\<close> adds: the builder adds
  neither fallback token, so one of them is a token of \<open>script-src\<close> only if the caller
  passed it as a hash.
\<close>

theorem fallback_tokens:
  "(truthy (enableBrowserFallbacks (paramCspOptions cspOptions)) \<longrightarrow>
      scriptSrc scriptHashes styleHashes cspOptions =
        Some (squote ''strict-dynamic'' # orEmpty scriptHashes
              @ ''https:'' # (if orEmpty scriptHashes \<noteq> [] then [squote ''unsafe-inline''] else [])
              @ (if truthy (enableUnsafeEval (paramCspOptions cspOptions))
                 then [squote ''unsafe-eval''] else [])))
   \<and> (\<not> truthy (enableBrowserFallbacks (paramCspOptions cspOptions)) \<longrightarrow>
      scriptSrc scriptHashes styleHashes cspOptions =
        Some (squote ''strict-dynamic'' # orEmpty scriptHashes
              @ (if truthy (enableUnsafeEval (paramCspOptions cspOptions))
                 then [squote ''unsafe-eval''] else []))
      \<and> (\<forall>t ts. t \<in> {''https:'', squote ''unsafe-inline''} \<longrightarrow>
            scriptSrc scriptHashes styleHashes cspOptions = Some ts \<longrightarrow>
            (t \<in> set ts \<longleftrightarrow> t \<in> set (orEmpty scriptHashes))))"
  by (auto simp add: scriptSrc_eq specScriptSrc_def squote_def)

theorem fallback_tokens_witness:
  "scriptSrc (Some [squote ''sha256-AAA='']) (Some [])
     (Some \<lparr>enableBrowserFallbacks = Some True, enableTrustedTypes = Some False,
            enableUnsafeEval = Some False\<rparr>) =
     Some [squote ''strict-dynamic'', squote ''sha256-AAA='', ''https:'', squote ''unsafe-inline'']
   \<and> scriptSrc (Some [squote ''sha256-AAA='']) (Some [])
     (Some \<lparr>enableBrowserFallbacks = Some False, enableTrustedTypes = Some False,
            enableUnsafeEval = Some False\<rparr>) =
     Some [squote ''strict-dynamic'', squote ''sha256-AAA='']
   \<and> scriptSrc (Some []) (Some [])
     (Some \<lparr>enableBrowserFallbacks = Some True, enableTrustedTypes = Some False,
            enableUnsafeEval = Some False\<rparr>) =
     Some [squote ''strict-dynamic'', ''https:'']"
  using
    fallback_tokens [of "Some \<lparr>enableBrowserFallbacks = Some True, enableTrustedTypes = Some False,
            enableUnsafeEval = Some False\<rparr>" "Some [squote ''sha256-AAA='']" "Some []"]
    fallback_tokens [of "Some \<lparr>enableBrowserFallbacks = Some False, enableTrustedTypes = Some False,
            enableUnsafeEval = Some False\<rparr>" "Some [squote ''sha256-AAA='']" "Some []"]
    fallback_tokens [of "Some \<lparr>enableBrowserFallbacks = Some True, enableTrustedTypes = Some False,
            enableUnsafeEval = Some False\<rparr>" "Some []" "Some []"]
  by (simp add: paramCspOptions_def truthy_def orEmpty_def)

text \<open>
  C3. With \<open>enableTrustedTypes\<close> on, the directive \<open>require-trusted-types-for\<close> with the
  one token \<open>'script'\<close> is the last directive, right after \<open>base-uri\<close>, and the tokens of
  \<open>script-src\<close> are those of the same call with the option off or absent. With
  \<open>enableUnsafeEval\<close> on, \<open>'unsafe-eval'\<close> is the last token of \<open>script-src\<close>, whatever
  the other two options are.
\<close>

theorem trusted_types_and_unsafe_eval:
  "strictCspTemplate scriptHashes styleHashes
       (Some (opts\<lparr>enableTrustedTypes := Some True\<rparr>)) =
     strictCspTemplate scriptHashes styleHashes
       (Some (opts\<lparr>enableTrustedTypes := Some False\<rparr>))
     @ [(''require-trusted-types-for'', [squote ''script''])]
   \<and> map fst (strictCspTemplate scriptHashes styleHashes
       (Some (opts\<lparr>enableTrustedTypes := Some True\<rparr>))) =
     [''script-src'', ''style-src'', ''object-src'', ''base-uri'', ''require-trusted-types-for'']
   \<and> getStrictCsp scriptHashes styleHashes (Some (opts\<lparr>enableTrustedTypes := Some True\<rparr>)) =
     getStrictCsp scriptHashes styleHashes (Some (opts\<lparr>enableTrustedTypes := Some False\<rparr>))
     @ ''require-trusted-types-for 'script';''
   \<and> scriptSrc scriptHashes styleHashes (Some (opts\<lparr>enableTrustedTypes := Some True\<rparr>)) =
     scriptSrc scriptHashes styleHashes (Some (opts\<lparr>enableTrustedTypes := Some False\<rparr>))
   \<and> scriptSrc scriptHashes styleHashes (Some (opts\<lparr>enableTrustedTypes := Some True\<rparr>)) =
     scriptSrc scriptHashes styleHashes (Some (opts\<lparr>enableTrustedTypes := None\<rparr>))
   \<and> (truthy (enableUnsafeEval (paramCspOptions cspOptions)) \<longrightarrow>
        (\<exists>ts. scriptSrc scriptHashes styleHashes cspOptions = Some ts
              \<and> ts \<noteq> [] \<and> last ts = squote ''unsafe-eval''))"
  by (simp add: getStrictCsp_def serializeTemplate_def join_empty_sep strictCspTemplate_eq
      scriptSrc_eq specDirectives_def specScriptSrc_def paramCspOptions_def truthy_def squote_def)

theorem trusted_types_and_unsafe_eval_witness:
  "truthy (enableUnsafeEval (paramCspOptions
      (Some \<lparr>enableBrowserFallbacks = Some True, enableTrustedTypes = Some True,
             enableUnsafeEval = Some True\<rparr>)))
   \<and> (\<exists>ts. scriptSrc (Some [''h1'']) (Some [''s1''])
      (Some \<lparr>enableBrowserFallbacks = Some True, enableTrustedTypes = Some True,
             enableUnsafeEval = Some True\<rparr>) = Some ts
          \<and> ts \<noteq> [] \<and> last ts = squote ''unsafe-eval'')
   \<and> getStrictCsp (Some [''h1'']) (Some [''s1''])
      (Some \<lparr>enableBrowserFallbacks = Some True, enableTrustedTypes = Some True,
             enableUnsafeEval = Some True\<rparr>) =
     ''script-src 'strict-dynamic' h1 https: 'unsafe-inline' 'unsafe-eval';style-src s1;''
     @ ''object-src 'none';base-uri 'self';require-trusted-types-for 'script';''"
proof -
  let ?o = "\<lparr>enableBrowserFallbacks = Some True, enableTrustedTypes = Some True,
             enableUnsafeEval = Some True\<rparr>"
  have t: "truthy (enableUnsafeEval (paramCspOptions (Some ?o)))"
    by (simp add: paramCspOptions_def truthy_def)
  have s: "getStrictCsp (Some [''h1'']) (Some [''s1''])
             (Some (?o\<lparr>enableTrustedTypes := Some False\<rparr>)) =
           ''script-src 'strict-dynamic' h1 https: 'unsafe-inline' 'unsafe-eval';style-src s1;''
           @ ''object-src 'none';base-uri 'self';''"
    by (simp add: getStrictCsp_def serializeTemplate_def strictCspTemplate_def Let_def
        paramCspOptions_def truthy_def orEmpty_def squote_def)
  note T = trusted_types_and_unsafe_eval [of "Some [''h1'']" "Some [''s1'']" ?o "Some ?o"]
  from T t have e: "\<exists>ts. scriptSrc (Some [''h1'']) (Some [''s1'']) (Some ?o) = Some ts
      \<and> ts \<noteq> [] \<and> last ts = squote ''unsafe-eval''"
    by blast
  from T have "getStrictCsp (Some [''h1'']) (Some [''s1''])
        (Some (?o\<lparr>enableTrustedTypes := Some True\<rparr>)) =
      getStrictCsp (Some [''h1'']) (Some [''s1''])
        (Some (?o\<lparr>enableTrustedTypes := Some False\<rparr>))
      @ ''require-trusted-types-for 'script';''"
    by blast
  with s have g: "getStrictCsp (Some [''h1'']) (Some [''s1'']) (Some ?o) =
      ''script-src 'strict-dynamic' h1 https: 'unsafe-inline' 'unsafe-eval';style-src s1;''
      @ ''object-src 'none';base-uri 'self';require-trusted-types-for 'script';''"
    by simp
  from t e g show ?thesis
    by blast
qed

text \<open>
  C9. The default options are the default value of the parameter, so they apply when the
  argument is omitted. When an options object is passed and its \<open>enableBrowserFallbacks\<close>
  is absent, the field reads as false: \<open>script-src\<close> receives neither \<open>https:\<close> nor
  \<open>'unsafe-inline'\<close>, and the policy is the one of the same call with the field set to
  false.
\<close>

theorem absent_fallback_option_is_false:
  "scriptSrc scriptHashes styleHashes (Some (opts\<lparr>enableBrowserFallbacks := None\<rparr>)) =
     Some (squote ''strict-dynamic'' # orEmpty scriptHashes
           @ (if truthy (enableUnsafeEval opts) then [squote ''unsafe-eval''] else []))
   \<and> getStrictCsp scriptHashes styleHashes (Some (opts\<lparr>enableBrowserFallbacks := None\<rparr>)) =
     getStrictCsp scriptHashes styleHashes (Some (opts\<lparr>enableBrowserFallbacks := Some False\<rparr>))
   \<and> getStrictCsp scriptHashes styleHashes None =
     getStrictCsp scriptHashes styleHashes (Some defaultCspOptions)
   \<and> scriptSrc scriptHashes styleHashes None =
     Some (squote ''strict-dynamic'' # orEmpty scriptHashes
           @ ''https:'' # (if orEmpty scriptHashes \<noteq> [] then [squote ''unsafe-inline''] else []))
   \<and> getStrictCsp None None
       (Some \<lparr>enableBrowserFallbacks = None, enableTrustedTypes = None,
              enableUnsafeEval = None\<rparr>) =
     ''script-src 'strict-dynamic';style-src ;object-src 'none';base-uri 'self';''"
  by (simp add: getStrictCsp_def serializeTemplate_def join_empty_sep strictCspTemplate_eq
      scriptSrc_eq specDirectives_def specScriptSrc_def paramCspOptions_def defaultCspOptions_def
      truthy_def squote_def orEmpty_def)

theorem absent_fallback_option_is_false_witness:
  "scriptSrc (Some [''h1'']) None
     (Some \<lparr>enableBrowserFallbacks = None, enableTrustedTypes = Some False,
            enableUnsafeEval = Some True\<rparr>) =
     Some [squote ''strict-dynamic'', ''h1'', squote ''unsafe-eval'']
   \<and> scriptSrc (Some [''h1'']) None None =
     Some [squote ''strict-dynamic'', ''h1'', ''https:'', squote ''unsafe-inline'']"
  using absent_fallback_option_is_false [of "Some [''h1'']" None
      "\<lparr>enableBrowserFallbacks = Some True, enableTrustedTypes = Some False,
        enableUnsafeEval = Some True\<rparr>"]
  by (simp add: truthy_def orEmpty_def)

section \<open>Properties of the loader script\<close>

lemma jsScan_literal:
  "safeUrl u \<Longrightarrow>
     jsScan True cur (u @ CHR 0x27 # rest) =
       (case jsScan False [] rest of (lits, out) \<Rightarrow> ((cur @ u) # lits, out))"
  by (induction u arbitrary: cur) (auto simp add: safeUrl_def split: prod.splits)

lemma jsScan_squote:
  "safeUrl u \<Longrightarrow>
     jsScan False cur (squote u @ rest) =
       (case jsScan False [] rest of (lits, out) \<Rightarrow> (u # lits, out))"
  using jsScan_literal [of u "[]" rest] by (simp add: squote_def)

lemma jsScan_join:
  "\<forall>u \<in> set srcList. safeUrl u \<Longrightarrow>
     jsScan False [] (join '','' (map squote srcList)) =
       (srcList, replicate (length srcList - 1) CHR '','')"
proof (induction srcList rule: induct_list012)
  case 1
  then show ?case by simp
next
  case (2 x)
  then show ?case using jsScan_squote [of x "[]" "[]"] by simp
next
  case (3 x y zs)
  then show ?case
    using jsScan_squote [of x "[]" "'','' @ join '','' (map squote (y # zs))"] by simp
qed


text \<open>
  C10. For every non-empty list of sources, \<open>createLoaderScript\<close> returns the fixed text
  around the sources, each between two single quotes as it is and joined by commas.
  While no source holds a quote or a backslash, the string literals of that list are the
  sources and only the commas lie outside them. The source \<open>x',alert(1),'y\<close> holds a
  quote and breaks this: the literals are \<open>x\<close> and \<open>y\<close>, and \<open>,alert(1),\<close> lies
  outside every literal.
\<close>

theorem loader_embeds_urls_verbatim:
  "(srcList \<noteq> [] \<longrightarrow>
      createLoaderScript srcList =
        Some (loaderHead @ join '','' (map squote srcList) @ loaderTail))
   \<and> ((\<forall>u \<in> set srcList. safeUrl u) \<longrightarrow>
      jsLiterals (join '','' (map squote srcList)) = srcList
      \<and> jsOutside (join '','' (map squote srcList)) = replicate (length srcList - 1) CHR '','')
   \<and> CHR 0x27 \<in> set ''x',alert(1),'y''
   \<and> createLoaderScript [''x',alert(1),'y''] =
       Some (loaderHead @ squote ''x',alert(1),'y'' @ loaderTail)
   \<and> jsLiterals (squote ''x',alert(1),'y'') = [''x'', ''y'']
   \<and> jsOutside (squote ''x',alert(1),'y'') = '',alert(1),''"
  by (simp add: createLoaderScript_def loaderHead_def loaderTail_def jsLiterals_def jsOutside_def
      jsScan_join squote_def)

theorem loader_embeds_urls_verbatim_witness:
  "safeUrl ''a.js'' \<and> safeUrl ''b.js''
   \<and> createLoaderScript [''a.js'', ''b.js''] =
       Some (loaderHead @ squote ''a.js','b.js'' @ loaderTail)
   \<and> jsLiterals (squote ''a.js','b.js'') = [''a.js'', ''b.js'']
   \<and> jsOutside (squote ''a.js','b.js'') = '',''"
  using loader_embeds_urls_verbatim [of "[''a.js'', ''b.js'']"]
  by (simp add: safeUrl_def squote_def)


section \<open>Properties of the hasher\<close>

lemma length_base64: "length (base64 bs) = 4 * ((length bs + 2) div 3)"
proof (induction bs rule: base64.induct)
  case (4 a b c bs)
  have "(length bs + 5) div 3 = Suc ((length bs + 2) div 3)"
    by presburger
  with 4 show ?case
    by (simp add: add.commute)
qed simp_all

lemma length_sha256: "length (sha256 m) = 32"
  by (simp add: sha256_def word_bytes_def split: prod.splits)

lemma length_hashInlineObject: "length (hashInlineObject text) = 53"
  by (simp add: hashInlineObject_def HASH_FUNCTION_def squote_def length_base64 length_sha256)


text \<open>The standard's test vector for the message \<open>abc\<close>.\<close>

lemma sha256_abc:
  "sha256 (map of_char ''abc'') =
     [0xBA, 0x78, 0x16, 0xBF, 0x8F, 0x01, 0xCF, 0xEA, 0x41, 0x41, 0x40, 0xDE, 0x5D, 0xAE, 0x22, 0x23,
      0xB0, 0x03, 0x61, 0xA3, 0x96, 0x17, 0x7A, 0x9C, 0xB4, 0x10, 0xFF, 0x61, 0xF2, 0x00, 0x15, 0xAD]"
  by code_simp

lemma hash_of_empty_text:
  "hashInlineObject [] = squote ''sha256-47DEQpj8HBSa+/TImW+5JCeuQeRkm5NMpJWZG3hSuFU=''"
  by code_simp

text \<open>
  C4. For every text, \<open>hashInlineObject\<close> returns, between two single quotes, \<open>sha256-\<close>
  followed by the base64 encoding of the SHA-256 digest of the UTF-8 bytes of the text:
  53 characters in all. It is a function of the text alone, and the hash of the empty text
  is the constant of the digest of the empty byte sequence.
\<close>

theorem hashInlineObject_sha256_base64:
  "hashInlineObject scriptText =
     squote (''sha256-'' @ base64 (sha256 (map of_char scriptText)))
   \<and> length (sha256 (map of_char scriptText)) = 32
   \<and> length (hashInlineObject scriptText) = 53
   \<and> hashInlineObject [] = squote ''sha256-47DEQpj8HBSa+/TImW+5JCeuQeRkm5NMpJWZG3hSuFU=''"
  using hash_of_empty_text
  by (simp add: hashInlineObject_def HASH_FUNCTION_def length_sha256 length_base64 squote_def)

section \<open>Properties of the DOM rewriter\<close>

lemma select_append: "select P (xs @ ys) = select P xs @ select P ys"
  by (simp add: select_def)

lemma select_Cons: "select P (n # ns) = select P [n] @ select P ns"
  by (simp add: select_def)

lemma select_Nil: "select P [] = []"
  by (simp add: select_def)

lemma select_Element:
  "select P [Element t a cs] = (if P (Element t a cs) then [Element t a cs] else []) @ select P cs"
  by (simp add: select_def)

lemma select_leaf: "select P [Text s] = (if P (Text s) then [Text s] else [])"
  "select P [Other s] = (if P (Other s) then [Other s] else [])"
  by (simp_all add: select_def)

lemma select_holds: "m \<in> set (select P doc) \<Longrightarrow> P m"
  by (simp add: select_def)

lemma self_in_descendants: "n \<in> set (descendants n)"
  by (cases n) simp_all

lemma remove_no_match: "filter P (descendants n) = [] \<Longrightarrow> remove P n = n"
proof (induction n)
  case (Element t a cs)
  have nm: "\<And>c. c \<in> set cs \<Longrightarrow> filter P (descendants c) = []"
    using Element.prems by (auto simp add: filter_empty_conv split: if_splits)
  have np: "\<And>c. c \<in> set cs \<Longrightarrow> \<not> P c"
    using nm self_in_descendants by (fastforce simp add: filter_empty_conv)
  have "filter (\<lambda>c. \<not> P c) cs = cs"
    using np by (simp add: filter_id_conv)
  moreover have "map (remove P) cs = cs"
    using Element.IH nm by (simp add: map_idI)
  ultimately show ?case by simp
qed simp_all

lemma removeAll_no_match: "select P doc = [] \<Longrightarrow> removeAll P doc = doc"
proof -
  assume a: "select P doc = []"
  have nm: "\<And>c. c \<in> set doc \<Longrightarrow> filter P (descendants c) = []"
    using a by (auto simp add: select_def filter_empty_conv)
  have np: "\<And>c. c \<in> set doc \<Longrightarrow> \<not> P c"
    using nm self_in_descendants by (fastforce simp add: filter_empty_conv)
  have "filter (\<lambda>c. \<not> P c) doc = doc"
    using np by (simp add: filter_id_conv)
  moreover have "map (remove P) doc = doc"
    using nm remove_no_match by (simp add: map_idI)
  ultimately show ?thesis by (simp add: removeAll_def)
qed


text \<open>
  C6. On a document with no \<open>script\<close> element that has a \<open>src\<close> attribute,
  \<open>refactorSourcedScriptsForHashBasedCsp\<close> returns the document as it was: nothing is
  removed and no script is inserted. \<open>createLoaderScript\<close> returns nothing exactly when
  its list of sources is empty.
\<close>

theorem no_sourced_scripts_no_change:
  "(select SOURCED_SCRIPT_SELECTOR doc = [] \<longrightarrow>
      refactorSourcedScriptsForHashBasedCsp doc = doc)
   \<and> (createLoaderScript srcList = None \<longleftrightarrow> srcList = [])"
  by (simp add: refactorSourcedScriptsForHashBasedCsp_def removeAll_no_match
      createLoaderScript_def Let_def)


theorem no_sourced_scripts_no_change_witness:
  "select SOURCED_SCRIPT_SELECTOR docHeadBody = []
   \<and> refactorSourcedScriptsForHashBasedCsp docHeadBody = docHeadBody"
proof -
  have "select SOURCED_SCRIPT_SELECTOR docHeadBody = []"
    by (simp add: docHeadBody_def select_def SOURCED_SCRIPT_SELECTOR_def)
  with no_sourced_scripts_no_change [of docHeadBody] show ?thesis
    by blast
qed

lemma appendTo_no_target:
  "select P [n] = [] \<Longrightarrow> appendTo P orig clone later n = n"
  "select P ns = [] \<Longrightarrow> appendToAll P orig clone later ns = ns"
proof (induction P orig clone later n and P orig clone later ns
       rule: appendTo_appendToAll.induct)
  case (1 P orig clone later t a cs)
  then show ?case
    by (simp add: select_Element split: if_splits)
next
  case (5 P orig clone later c cs)
  from "5.prems" have "select P [c] = []" and "select P cs = []"
    using select_Cons [of P c cs] by simp_all
  with 5 show ?case by simp
qed simp_all

lemma hasName_remove: "hasName tag (remove Q n) = hasName tag n"
  by (cases n) simp_all

lemma select_remove:
  "select (hasName tag) [n] = [] \<Longrightarrow> select (hasName tag) [remove Q n] = []"
proof (induction n)
  case (Element t a cs)
  from Element.prems have nt: "t \<noteq> tag" and sub: "select (hasName tag) cs = []"
    by (auto simp add: select_Element split: if_splits)
  have "\<And>c. c \<in> set cs \<Longrightarrow> select (hasName tag) [c] = []"
    using sub by (auto simp add: select_def filter_empty_conv)
  then have "\<And>c. c \<in> set cs \<Longrightarrow> select (hasName tag) [remove Q c] = []"
    using Element.IH by simp
  then have "select (hasName tag) (map (remove Q) (filter (\<lambda>c. \<not> Q c) cs)) = []"
    by (auto simp add: select_def filter_empty_conv)
  then show ?case
    using nt by (simp add: select_Element)
qed (simp_all add: select_leaf)

lemma select_removeAll:
  "select (hasName tag) doc = [] \<Longrightarrow> select (hasName tag) (removeAll Q doc) = []"
proof -
  assume a: "select (hasName tag) doc = []"
  have "\<And>c. c \<in> set doc \<Longrightarrow> select (hasName tag) [c] = []"
    using a by (auto simp add: select_def filter_empty_conv)
  then have "\<And>c. c \<in> set doc \<Longrightarrow> select (hasName tag) [remove Q c] = []"
    using select_remove by simp
  then show ?thesis
    by (auto simp add: removeAll_def select_def filter_empty_conv)
qed

text \<open>
  On a document without a \<open>body\<close> element the method removes the sourced scripts and
  inserts nothing.
\<close>

lemma refactor_without_body:
  "select (hasName ''body'') doc = [] \<Longrightarrow>
     refactorSourcedScriptsForHashBasedCsp doc = removeAll SOURCED_SCRIPT_SELECTOR doc"
  by (simp add: refactorSourcedScriptsForHashBasedCsp_def Let_def select_removeAll
      appendTo_no_target split: option.splits)

text \<open>
  With a \<open>body\<close> element around them, the two sourced scripts are replaced by one inline
  script at the end of the body, whose text is the loader for \<open>a.js\<close>, then \<open>b.js\<close>.
\<close>

lemma refactor_in_body:
  "refactorSourcedScriptsForHashBasedCsp docInBody =
     [Element ''html'' []
        [Element ''head'' [] [],
         Element ''body'' [] [Element ''script'' [] [Text loaderAB]]]]"
  by (simp add: refactorSourcedScriptsForHashBasedCsp_def docInBody_def select_def
      SOURCED_SCRIPT_SELECTOR_def List.map_filter_def removeAll_def createLoaderScript_def
      loaderAB_def squote_def)

text \<open>
  C5. On the document of \<^verbatim>\<open><script src="a.js"></script><script src="b.js"></script>\<close>
  the method removes both scripts and builds the loader text for \<open>a.js\<close>, then \<open>b.js\<close>,
  each with \<open>async\<close> set to false. The document has no \<open>body\<close> element, so the new
  script is appended to nothing: the document that remains is empty.
\<close>

theorem refactor_fragment_loses_scripts:
  "refactorSourcedScriptsForHashBasedCsp docTwoSourcedScripts = []
   \<and> createLoaderScript [''a.js'', ''b.js''] = Some loaderAB"
  by (simp add: refactorSourcedScriptsForHashBasedCsp_def docTwoSourcedScripts_def select_def
      SOURCED_SCRIPT_SELECTOR_def List.map_filter_def removeAll_def createLoaderScript_def
      loaderAB_def squote_def)


lemma html_text_only:
  "hasName t e \<Longrightarrow> \<forall>c \<in> set (children e). isText c \<Longrightarrow>
     orEmptyString (html render e) = rawText e"
proof (cases e)
  case (Element t' a cs)
  assume "\<forall>c \<in> set (children e). isText c"
  then have "\<And>c. c \<in> set cs \<Longrightarrow> renderNode render c = textData c"
    using Element by (metis children.simps(1) isText.elims(2) renderNode.simps(1) textData.simps(1))
  then have eq: "map (renderNode render) cs = map textData cs"
    by simp
  show ?thesis
    using Element by (simp add: orEmptyString_def rawText_def eq)
qed simp_all


text \<open>
  C8. \<open>hashAllInlineScripts\<close> takes the \<open>script\<close> elements without a \<open>src\<close> attribute
  in document order and returns the hash of what each one holds; where the children of
  these elements are text nodes, that is the hash of the raw text. The document stays as it
  is. A document that is one script with the text \<open>alert(1)\<close> gives the one hash of
  \<open>alert(1)\<close>, and a script with no text gives the hash of the empty string.
\<close>

theorem hashAllInlineScripts_hashes_raw_text:
  "((\<forall>e \<in> set (select INLINE_SCRIPT_SELECTOR doc). \<forall>c \<in> set (children e). isText c) \<longrightarrow>
      fst (hashAllInlineScripts render doc) =
        map (\<lambda>e. hashInlineObject (rawText e)) (select INLINE_SCRIPT_SELECTOR doc))
   \<and> snd (hashAllInlineScripts render doc) = doc
   \<and> hashAllInlineScripts render [Element ''script'' [] [Text ''alert(1)'']] =
       ([hashInlineObject ''alert(1)''], [Element ''script'' [] [Text ''alert(1)'']])
   \<and> hashAllInlineScripts render [Element ''script'' [] []] =
       ([hashInlineObject []], [Element ''script'' [] []])"
proof -
  have "fst (hashAllInlineScripts render doc) =
        map (\<lambda>e. hashInlineObject (rawText e)) (select INLINE_SCRIPT_SELECTOR doc)"
    if t: "\<forall>e \<in> set (select INLINE_SCRIPT_SELECTOR doc). \<forall>c \<in> set (children e). isText c"
  proof -
    have "orEmptyString (html render e) = rawText e"
      if "e \<in> set (select INLINE_SCRIPT_SELECTOR doc)" for e
      using that t select_holds [of e INLINE_SCRIPT_SELECTOR doc] html_text_only [of "''script''" e]
      by (simp add: INLINE_SCRIPT_SELECTOR_def)
    then show ?thesis
      by (simp add: hashAllInlineScripts_def)
  qed
  moreover have "snd (hashAllInlineScripts render doc) = doc"
    by (simp add: hashAllInlineScripts_def)
  moreover have "hashAllInlineScripts render [Element ''script'' [] [Text ''alert(1)'']] =
       ([hashInlineObject ''alert(1)''], [Element ''script'' [] [Text ''alert(1)'']])"
    by (simp add: hashAllInlineScripts_def select_def INLINE_SCRIPT_SELECTOR_def orEmptyString_def)
  moreover have "hashAllInlineScripts render [Element ''script'' [] []] =
       ([hashInlineObject []], [Element ''script'' [] []])"
    by (simp add: hashAllInlineScripts_def select_def INLINE_SCRIPT_SELECTOR_def orEmptyString_def)
  ultimately show ?thesis by blast
qed


theorem hashAllInlineScripts_hashes_raw_text_witness:
  "select INLINE_SCRIPT_SELECTOR docInlineScripts =
     [Element ''script'' [] [Text ''a()''], Element ''script'' [] [Text ''b()'']]
   \<and> fst (hashAllInlineScripts (\<lambda>n. []) docInlineScripts) =
       [hashInlineObject ''a()'', hashInlineObject ''b()'']"
proof -
  have s: "select INLINE_SCRIPT_SELECTOR docInlineScripts =
      [Element ''script'' [] [Text ''a()''], Element ''script'' [] [Text ''b()'']]"
    by (simp add: docInlineScripts_def select_def INLINE_SCRIPT_SELECTOR_def)
  then have t: "\<forall>e \<in> set (select INLINE_SCRIPT_SELECTOR docInlineScripts).
      \<forall>c \<in> set (children e). isText c"
    by simp
  with hashAllInlineScripts_hashes_raw_text [of docInlineScripts "\<lambda>n. []"]
  have "fst (hashAllInlineScripts (\<lambda>n. []) docInlineScripts) =
      map (\<lambda>e. hashInlineObject (rawText e)) (select INLINE_SCRIPT_SELECTOR docInlineScripts)"
    by blast
  with s t show ?thesis
    by (simp add: rawText_def)
qed

lemma inserted_append:
  "inserted orig clone (later \<or> k2 \<noteq> 0) k1 @ inserted orig clone later k2 =
     inserted orig clone later (k1 + k2)"
  by (cases k2) (auto simp add: inserted_def replicate_add replicate_append_same)

lemma inserted_Cons:
  "(if later \<or> k \<noteq> 0 then clone else orig) # inserted orig clone later k =
     inserted orig clone later (Suc k)"
  by (cases k) (auto simp add: inserted_def replicate_append_same)

lemma META_children: "META_CSP_SELECTOR (Element t a cs) = META_CSP_SELECTOR (Element t a cs')"
  by (simp add: META_CSP_SELECTOR_def)

lemma select_meta_prependTo:
  fixes orig clone :: node
  assumes o: "select META_CSP_SELECTOR [orig] = [orig]"
      and c: "select META_CSP_SELECTOR [clone] = [clone]"
      and e: "\<forall>s. \<not> H (Text s) \<and> \<not> H (Other s)"
  shows "select META_CSP_SELECTOR [n] = [] \<Longrightarrow>
           select META_CSP_SELECTOR [prependTo H orig clone later n] =
             inserted orig clone later (length (select H [n]))"
    and "select META_CSP_SELECTOR ns = [] \<Longrightarrow>
           select META_CSP_SELECTOR (prependToAll H orig clone later ns) =
             inserted orig clone later (length (select H ns))"
  using o c e
proof (induction H orig clone later n and H orig clone later ns
       rule: prependTo_prependToAll.induct)
  case (1 P orig clone later t a cs)
  from "1.prems" have nm: "\<not> META_CSP_SELECTOR (Element t a cs)"
    and sub: "select META_CSP_SELECTOR cs = []"
    by (auto simp add: select_Element split: if_splits)
  have nm': "\<not> META_CSP_SELECTOR (Element t a cs')" for cs'
    using nm META_children by blast
  show ?case
  proof (cases "P (Element t a cs)")
    case True
    let ?x = "if later \<or> select P cs \<noteq> [] then clone else orig"
    have ih: "select META_CSP_SELECTOR (prependToAll P orig clone later cs) =
        inserted orig clone later (length (select P cs))"
      using "1.IH"(1) True sub "1.prems" by simp
    have ins: "select META_CSP_SELECTOR [?x] = [?x]"
      using "1.prems" by simp
    have "select META_CSP_SELECTOR [prependTo P orig clone later (Element t a cs)] =
        select META_CSP_SELECTOR [?x] @ select META_CSP_SELECTOR (prependToAll P orig clone later cs)"
      using True nm' select_Cons [of META_CSP_SELECTOR ?x "prependToAll P orig clone later cs"]
      by (simp add: select_Element)
    also have "\<dots> = ?x # inserted orig clone later (length (select P cs))"
      using ih ins by simp
    also have "\<dots> = inserted orig clone later (Suc (length (select P cs)))"
      using inserted_Cons [of later "length (select P cs)" clone orig] by simp
    finally show ?thesis
      using True by (simp add: select_Element)
  next
    case False
    then show ?thesis
      using "1.IH"(2) sub nm' "1.prems" by (simp add: select_Element)
  qed
next
  case (5 P orig clone later c cs)
  from "5.prems" have s1: "select META_CSP_SELECTOR [c] = []"
    and s2: "select META_CSP_SELECTOR cs = []"
    using select_Cons [of META_CSP_SELECTOR c cs] by simp_all
  have "select META_CSP_SELECTOR (prependToAll P orig clone later (c # cs)) =
      select META_CSP_SELECTOR [prependTo P orig clone (later \<or> select P cs \<noteq> []) c]
      @ select META_CSP_SELECTOR (prependToAll P orig clone later cs)"
    using select_Cons [of META_CSP_SELECTOR
        "prependTo P orig clone (later \<or> select P cs \<noteq> []) c"
        "prependToAll P orig clone later cs"] by simp
  also have "\<dots> = inserted orig clone (later \<or> length (select P cs) \<noteq> 0) (length (select P [c]))
      @ inserted orig clone later (length (select P cs))"
    using "5.IH" s1 s2 "5.prems" by simp
  also have "\<dots> = inserted orig clone later (length (select P [c]) + length (select P cs))"
    by (rule inserted_append)
  finally show ?case
    using select_Cons [of P c cs] by simp
qed (simp_all add: select_leaf select_Nil inserted_def)


lemma hasName_children: "hasName tag (Element t a cs) = hasName tag (Element t a cs')"
  by simp

lemma head_first_child:
  fixes orig clone :: node
  assumes o: "select (hasName tag) [orig] = []"
      and c: "select (hasName tag) [clone] = []"
  shows "list_all2 (\<lambda>h x. \<exists>t a cs. h = Element t a (x # cs))
           (select (hasName tag) [prependTo (hasName tag) orig clone later n])
           (inserted orig clone later (length (select (hasName tag) [n])))"
    and "list_all2 (\<lambda>h x. \<exists>t a cs. h = Element t a (x # cs))
           (select (hasName tag) (prependToAll (hasName tag) orig clone later ns))
           (inserted orig clone later (length (select (hasName tag) ns)))"
  using o c
proof (induction "hasName tag" orig clone later n and "hasName tag" orig clone later ns
       rule: prependTo_prependToAll.induct)
  case (1 orig clone later t a cs)
  show ?case
  proof (cases "hasName tag (Element t a cs)")
    case True
    define x where "x = (if later \<or> select (hasName tag) cs \<noteq> [] then clone else orig)"
    define cs' where "cs' = prependToAll (hasName tag) orig clone later cs"
    define k where "k = length (select (hasName tag) cs)"
    have ih: "list_all2 (\<lambda>h x. \<exists>t a cs. h = Element t a (x # cs))
        (select (hasName tag) cs') (inserted orig clone later k)"
      using "1.hyps"(1) True "1.prems" by (simp add: cs'_def k_def)
    have px: "prependTo (hasName tag) orig clone later (Element t a cs) = Element t a (x # cs')"
      using True by (simp add: x_def cs'_def)
    have nx: "select (hasName tag) [x] = []"
      using "1.prems" by (simp add: x_def)
    have sel: "select (hasName tag) [Element t a (x # cs')] =
        Element t a (x # cs') # select (hasName tag) cs'"
      using True nx select_Cons [of "hasName tag" x cs'] by (simp add: select_Element)
    have ic: "inserted orig clone later (Suc k) = x # inserted orig clone later k"
      using inserted_Cons [of later k clone orig] by (simp add: x_def k_def)
    have len: "length (select (hasName tag) [Element t a cs]) = Suc k"
      using True by (simp add: select_Element k_def)
    have "list_all2 (\<lambda>h x. \<exists>t a cs. h = Element t a (x # cs))
        (Element t a (x # cs') # select (hasName tag) cs') (x # inserted orig clone later k)"
      using ih by simp
    then show ?thesis
      unfolding px sel len ic by simp
  next
    case False
    then show ?thesis
      using "1.hyps"(2) "1.prems" by (simp add: select_Element)
  qed
next
  case (5 orig clone later c cs)
  let ?c' = "prependTo (hasName tag) orig clone (later \<or> select (hasName tag) cs \<noteq> []) c"
  let ?cs' = "prependToAll (hasName tag) orig clone later cs"
  have "list_all2 (\<lambda>h x. \<exists>t a cs. h = Element t a (x # cs))
      (select (hasName tag) [?c'] @ select (hasName tag) ?cs')
      (inserted orig clone (later \<or> length (select (hasName tag) cs) \<noteq> 0)
         (length (select (hasName tag) [c]))
       @ inserted orig clone later (length (select (hasName tag) cs)))"
    using "5.hyps" "5.prems" by (intro list_all2_appendI) simp_all
  then show ?case
    using select_Cons [of "hasName tag" ?c' ?cs'] select_Cons [of "hasName tag" c cs]
      inserted_append [of orig clone later "length (select (hasName tag) cs)"
        "length (select (hasName tag) [c])"]
    by simp
qed (simp_all add: select_leaf select_Nil inserted_def)

lemma removeAll_Cons:
  "removeAll P (n # ns) = (if P n then [] else [remove P n]) @ removeAll P ns"
  by (simp add: removeAll_def)

lemma remove_prependTo:
  fixes orig clone :: node
  assumes o: "META_CSP_SELECTOR orig" and c: "META_CSP_SELECTOR clone"
  shows "select META_CSP_SELECTOR [n] = [] \<Longrightarrow>
           remove META_CSP_SELECTOR (prependTo H orig clone later n) = n
           \<and> \<not> META_CSP_SELECTOR (prependTo H orig clone later n)"
    and "select META_CSP_SELECTOR ns = [] \<Longrightarrow>
           removeAll META_CSP_SELECTOR (prependToAll H orig clone later ns) = ns"
  using o c
proof (induction H orig clone later n and H orig clone later ns
       rule: prependTo_prependToAll.induct)
  case (1 P orig clone later t a cs)
  from "1.prems" have nm: "\<not> META_CSP_SELECTOR (Element t a cs)"
    and sub: "select META_CSP_SELECTOR cs = []"
    by (auto simp add: select_Element split: if_splits)
  have nm': "\<not> META_CSP_SELECTOR (Element t a cs')" for cs'
    using nm META_children by blast
  have ih: "removeAll META_CSP_SELECTOR (prependToAll P orig clone later cs) = cs"
    using "1.IH" sub "1.prems" by (cases "P (Element t a cs)") simp_all
  then have "map (remove META_CSP_SELECTOR)
      (filter (\<lambda>c. \<not> META_CSP_SELECTOR c) (prependToAll P orig clone later cs)) = cs"
    by (simp add: removeAll_def)
  then show ?case
    using nm' "1.prems" by simp
next
  case (5 P orig clone later c cs)
  from "5.prems" have s1: "select META_CSP_SELECTOR [c] = []"
    and s2: "select META_CSP_SELECTOR cs = []"
    using select_Cons [of META_CSP_SELECTOR c cs] by simp_all
  show ?case
    using "5.IH" s1 s2 "5.prems" by (simp add: removeAll_Cons)
qed (simp_all add: removeAll_def select_leaf split: if_splits)

lemma map_of_obj_set:
  "map_of (obj_set k v a) k' = (if k' = k then Some v else map_of a k')"
  by (induction a) auto

lemma META_attrSet:
  "k \<noteq> ''http-equiv'' \<Longrightarrow> META_CSP_SELECTOR (attrSet P k v n) = META_CSP_SELECTOR n"
  by (cases n) (simp_all add: META_CSP_SELECTOR_def map_of_obj_set)

lemma descendants_attrSet:
  "descendants (attrSet P k v n) = map (attrSet P k v) (descendants n)"
  by (induction n) (simp_all add: map_concat comp_def cong: map_cong)

lemma select_attrSet:
  "k \<noteq> ''http-equiv'' \<Longrightarrow>
     select META_CSP_SELECTOR (map (attrSet P k v) doc) =
       map (attrSet P k v) (select META_CSP_SELECTOR doc)"
proof -
  assume k: "k \<noteq> ''http-equiv''"
  have "concat (map descendants (map (attrSet P k v) doc)) =
      map (attrSet P k v) (concat (map descendants doc))"
    by (simp add: map_concat comp_def descendants_attrSet)
  moreover have "META_CSP_SELECTOR \<circ> attrSet P k v = META_CSP_SELECTOR"
    using k by (auto simp add: META_attrSet)
  ultimately show ?thesis
    by (simp add: select_def filter_map)
qed

lemma attr_attrSet:
  "P n \<Longrightarrow> hasName t n \<Longrightarrow> attr (attrSet P k v n) k = Some v"
  by (cases n) (simp_all add: map_of_obj_set)

lemma addMetaTag_existing:
  "select META_CSP_SELECTOR doc \<noteq> [] \<Longrightarrow>
     select META_CSP_SELECTOR (addMetaTag csp doc) =
       map (attrSet META_CSP_SELECTOR ''content'' csp) (select META_CSP_SELECTOR doc)"
  by (simp add: addMetaTag_def select_attrSet)

lemma newMetaTag_content:
  "attrSet META_CSP_SELECTOR ''content'' csp newMetaTag =
     Element ''meta'' [(''http-equiv'', ''Content-Security-Policy''), (''content'', csp)] []"
  by (simp add: newMetaTag_def META_CSP_SELECTOR_def)

lemma addMetaTag_new:
  "select META_CSP_SELECTOR doc = [] \<Longrightarrow>
     select META_CSP_SELECTOR (addMetaTag csp doc) =
       inserted (Element ''meta'' [(''http-equiv'', ''Content-Security-Policy''), (''content'', csp)] [])
         newMetaTag False (length (select (hasName ''head'') doc))"
  using select_meta_prependTo(2) [of
      "Element ''meta'' [(''http-equiv'', ''Content-Security-Policy''), (''content'', csp)] []"
      newMetaTag "hasName ''head''" doc False]
  by (simp add: addMetaTag_def newMetaTag_content)
     (simp add: newMetaTag_def select_Element select_Nil META_CSP_SELECTOR_def)



text \<open>
  C7, as the code has it. On a document that holds exactly one policy meta element, or
  none and exactly one \<open>head\<close> element, \<open>addMetaTag p1\<close> followed by \<open>addMetaTag p2\<close>
  leaves exactly one policy meta element, and its \<open>content\<close> is \<open>p2\<close>. Where the document
  held none, the first call makes the new element the first child of the \<open>head\<close> and
  changes nothing else.
\<close>

theorem addMetaTag_twice_one_meta:
  "length (select META_CSP_SELECTOR doc) = 1
     \<or> (select META_CSP_SELECTOR doc = [] \<and> length (select (hasName ''head'') doc) = 1) \<Longrightarrow>
   (\<exists>m. select META_CSP_SELECTOR (addMetaTag p2 (addMetaTag p1 doc)) = [m]
        \<and> attr m ''content'' = Some p2)
   \<and> (select META_CSP_SELECTOR doc = [] \<longrightarrow>
        (\<exists>t a cs. select (hasName ''head'') (addMetaTag p1 doc) =
           [Element t a
              (Element ''meta''
                 [(''http-equiv'', ''Content-Security-Policy''), (''content'', p1)] [] # cs)])
        \<and> removeAll META_CSP_SELECTOR (addMetaTag p1 doc) = doc)"
proof -
  assume a: "length (select META_CSP_SELECTOR doc) = 1
     \<or> (select META_CSP_SELECTOR doc = [] \<and> length (select (hasName ''head'') doc) = 1)"
  let ?m1 = "Element ''meta''
      [(''http-equiv'', ''Content-Security-Policy''), (''content'', p1)] []"
  have one: "\<exists>m. select META_CSP_SELECTOR (addMetaTag p1 doc) = [m]"
  proof (cases "select META_CSP_SELECTOR doc = []")
    case True
    with a have "length (select (hasName ''head'') doc) = 1" by simp
    with True show ?thesis
      by (simp add: addMetaTag_new inserted_def)
  next
    case False
    with a have "length (select META_CSP_SELECTOR doc) = 1" by simp
    then obtain m where "select META_CSP_SELECTOR doc = [m]"
      by (cases "select META_CSP_SELECTOR doc") simp_all
    with False show ?thesis
      by (simp add: addMetaTag_existing)
  qed
  then obtain m where m: "select META_CSP_SELECTOR (addMetaTag p1 doc) = [m]" ..
  then have "META_CSP_SELECTOR m"
    using select_holds [of m META_CSP_SELECTOR "addMetaTag p1 doc"] by simp
  then have c: "attr (attrSet META_CSP_SELECTOR ''content'' p2 m) ''content'' = Some p2"
    using attr_attrSet [of META_CSP_SELECTOR m "''meta''"]
    by (simp add: META_CSP_SELECTOR_def)
  have two: "select META_CSP_SELECTOR (addMetaTag p2 (addMetaTag p1 doc)) =
      [attrSet META_CSP_SELECTOR ''content'' p2 m]"
    using m by (simp add: addMetaTag_existing)
  have first: "\<exists>t a cs. select (hasName ''head'') (addMetaTag p1 doc) = [Element t a (?m1 # cs)]"
    and rest: "removeAll META_CSP_SELECTOR (addMetaTag p1 doc) = doc"
    if none: "select META_CSP_SELECTOR doc = []"
  proof -
    from a none have h: "length (select (hasName ''head'') doc) = 1" by simp
    have "list_all2 (\<lambda>h x. \<exists>t a cs. h = Element t a (x # cs))
        (select (hasName ''head'') (prependToAll (hasName ''head'') ?m1 newMetaTag False doc))
        (inserted ?m1 newMetaTag False (length (select (hasName ''head'') doc)))"
      by (rule head_first_child(2)) (simp_all add: newMetaTag_def select_Element select_Nil)
    then have "list_all2 (\<lambda>h x. \<exists>t a cs. h = Element t a (x # cs))
        (select (hasName ''head'') (addMetaTag p1 doc)) [?m1]"
      using none h by (simp add: addMetaTag_def newMetaTag_content inserted_def)
    then show "\<exists>t a cs. select (hasName ''head'') (addMetaTag p1 doc) = [Element t a (?m1 # cs)]"
      by (auto simp add: list_all2_Cons2)
    have "removeAll META_CSP_SELECTOR
        (prependToAll (hasName ''head'') ?m1 newMetaTag False doc) = doc"
      using none
      by (intro remove_prependTo(2)) (simp_all add: newMetaTag_def META_CSP_SELECTOR_def)
    then show "removeAll META_CSP_SELECTOR (addMetaTag p1 doc) = doc"
      using none by (simp add: addMetaTag_def newMetaTag_content)
  qed
  from two c first rest show ?thesis
    by simp
qed

theorem addMetaTag_twice_one_meta_witness:
  "(length (select META_CSP_SELECTOR docHeadBody) = 1
     \<or> (select META_CSP_SELECTOR docHeadBody = []
         \<and> length (select (hasName ''head'') docHeadBody) = 1))
   \<and> (\<exists>m. select META_CSP_SELECTOR (addMetaTag ''p2'' (addMetaTag ''p1'' docHeadBody)) = [m]
        \<and> attr m ''content'' = Some ''p2'')
   \<and> addMetaTag ''p2'' (addMetaTag ''p1'' docHeadBody) =
       [Element ''html'' []
          [Element ''head'' []
             [Element ''meta''
                [(''http-equiv'', ''Content-Security-Policy''), (''content'', ''p2'')] [],
              Element ''title'' [] [Text ''t'']],
           Element ''body'' [] []]]"
proof -
  have h: "select META_CSP_SELECTOR docHeadBody = []
      \<and> length (select (hasName ''head'') docHeadBody) = 1"
    by (simp add: docHeadBody_def select_def META_CSP_SELECTOR_def)
  have d: "addMetaTag ''p2'' (addMetaTag ''p1'' docHeadBody) =
       [Element ''html'' []
          [Element ''head'' []
             [Element ''meta''
                [(''http-equiv'', ''Content-Security-Policy''), (''content'', ''p2'')] [],
              Element ''title'' [] [Text ''t'']],
           Element ''body'' [] []]]"
    by (simp add: docHeadBody_def addMetaTag_def select_def META_CSP_SELECTOR_def newMetaTag_def)
  from h addMetaTag_twice_one_meta [of docHeadBody "''p2''" "''p1''"] d show ?thesis
    by blast
qed


text \<open>
  C7 does not hold for every document. With two policy meta elements in the document
  both stay, each with the new \<open>content\<close>; with no \<open>head\<close> element no meta element is
  inserted and the document stays as it was; with two \<open>head\<close> elements each receives a
  meta element.
\<close>

theorem addMetaTag_twice_counterexample:
  "select META_CSP_SELECTOR (addMetaTag ''p2'' (addMetaTag ''p1'' docTwoMetas)) =
     [Element ''meta'' [(''http-equiv'', ''Content-Security-Policy''), (''content'', ''p2'')] [],
      Element ''meta'' [(''http-equiv'', ''Content-Security-Policy''), (''content'', ''p2'')] []]
   \<and> select META_CSP_SELECTOR (addMetaTag ''p2'' (addMetaTag ''p1'' docNoHead)) = []
   \<and> addMetaTag ''p2'' (addMetaTag ''p1'' docNoHead) = docNoHead
   \<and> addMetaTag ''p1'' docTwoHeads =
     [Element ''html'' []
        [Element ''head'' []
           [Element ''meta'' [(''http-equiv'', ''Content-Security-Policy'')] []],
         Element ''head'' []
           [Element ''meta'' [(''http-equiv'', ''Content-Security-Policy''), (''content'', ''p1'')] []],
         Element ''body'' [] []]]
   \<and> length (select META_CSP_SELECTOR (addMetaTag ''p2'' (addMetaTag ''p1'' docTwoHeads))) = 2"
  by (simp add: docTwoMetas_def docNoHead_def docTwoHeads_def addMetaTag_def select_def
      META_CSP_SELECTOR_def newMetaTag_def)

end
